theory Spec2Isabelle
  imports Complex_Main
begin

unbundle bit_operations_syntax

section \<open>Python values: exceptions and list indexing\<close>

text \<open>
  Every exception the modelled methods can raise is a value of \<open>error\<close>; a method that
  may raise returns \<open>error + 'a\<close>, with \<open>Inl\<close> the exception. \<open>SystemExit\<close> is what
  \<^verbatim>\<open>sys.exit()\<close> raises, \<open>ValueError\<close> carries its message.
\<close>

datatype error =
    IndexError
  | KeyError
  | AttributeError
  | ZeroDivisionError
  | OverflowError
  | SystemExit
  | ValueError string

text \<open>
  \<^verbatim>\<open>xs[i]\<close> on a Python list: a negative index counts from the end, an index out of
  range raises \<open>IndexError\<close>. \<open>py_index\<close> is the position the subscript denotes.
\<close>

definition py_index :: "'a list \<Rightarrow> int \<Rightarrow> error + nat" where
  "py_index xs i =
     (let n = int (length xs); j = (if i < 0 then n + i else i)
      in if 0 \<le> j \<and> j < n then Inr (nat j) else Inl IndexError)"

definition py_get :: "'a list \<Rightarrow> int \<Rightarrow> error + 'a" where
  "py_get xs i = (case py_index xs i of Inl e \<Rightarrow> Inl e | Inr j \<Rightarrow> Inr (xs ! j))"

section \<open>Python floats\<close>

text \<open>
  A Python float is a double: a real number, an infinity or NaN (the two zeros are not
  told apart, no operation below depends on the sign of zero).
\<close>

datatype pyfloat = Finite real | PosInf | NegInf | NaN

text \<open>
  \<^verbatim>\<open>1000 / x\<close> for a float \<open>x\<close>. The quotient of two doubles is the exact quotient rounded
  to the nearest double. That rounding is the parameter \<open>round_double\<close>: it maps a real
  number to the double the hardware delivers for it, an infinity when the number is out
  of range. Nothing is assumed of it here. Dividing by zero raises; dividing by an
  infinity gives zero; NaN gives NaN.
\<close>

definition truediv_1000 :: "(real \<Rightarrow> pyfloat) \<Rightarrow> pyfloat \<Rightarrow> error + pyfloat" where
  "truediv_1000 round_double x =
     (case x of
        Finite r \<Rightarrow> if r = 0 then Inl ZeroDivisionError else Inr (round_double (1000 / r))
      | PosInf \<Rightarrow> Inr (Finite 0)
      | NegInf \<Rightarrow> Inr (Finite 0)
      | NaN \<Rightarrow> Inr NaN)"

text \<open>\<^verbatim>\<open>math.ceil\<close> of a float: an integer, or an exception at an infinity or NaN.\<close>

definition math_ceil :: "pyfloat \<Rightarrow> error + int" where
  "math_ceil x =
     (case x of
        Finite r \<Rightarrow> Inr \<lceil>r\<rceil>
      | PosInf \<Rightarrow> Inl OverflowError
      | NegInf \<Rightarrow> Inl OverflowError
      | NaN \<Rightarrow> Inl (ValueError ''cannot convert float NaN to integer''))"

section \<open>manim\_presentation/present.py\<close>

subsection \<open>Config and State\<close>

definition QUIT_KEY :: int where "QUIT_KEY = 113"
definition CONTINUE_KEY :: int where "CONTINUE_KEY = 83"
definition BACK_KEY :: int where "BACK_KEY = 81"
definition REWIND_KEY :: int where "REWIND_KEY = 114"
definition PLAYPAUSE_KEY :: int where "PLAYPAUSE_KEY = 32"

datatype State = PLAYING | PAUSED | WAIT | END

definition fix_time :: "int \<Rightarrow> int" where
  "fix_time x = (if x > 0 then x else 1)"

subsection \<open>The decoder's handle\<close>

text \<open>
  \<^verbatim>\<open>cv2.VideoCapture\<close> is the external decoder. Of its contract the player uses three
  operations: \<^verbatim>\<open>read()\<close> gives the next frame and moves the decode position one frame on,
  or gives \<^verbatim>\<open>(False, None)\<close> when no frame is left (also for a file that could not be
  opened, which has no frame at all); \<^verbatim>\<open>set(CAP_PROP_POS_FRAMES, 0)\<close> moves the decode
  position to the first frame; \<^verbatim>\<open>get(CAP_PROP_FPS)\<close> is the frame rate, a float that is
  \<open>0.0\<close> for an unopened file. A frame is an opaque value, here a number.
\<close>

type_synonym frame = nat

record cap =
  frames :: "frame list"
  pos_frames :: nat
  prop_fps :: pyfloat

definition VideoCapture :: "frame list \<times> pyfloat \<Rightarrow> cap" where
  "VideoCapture f = \<lparr>frames = fst f, pos_frames = 0, prop_fps = snd f\<rparr>"

definition cap_read :: "cap \<Rightarrow> bool \<times> frame option \<times> cap" where
  "cap_read c =
     (if pos_frames c < length (frames c)
      then (True, Some (frames c ! pos_frames c), c\<lparr>pos_frames := pos_frames c + 1\<rparr>)
      else (False, None, c))"

definition cap_set_pos0 :: "cap \<Rightarrow> cap" where
  "cap_set_pos0 c = c\<lparr>pos_frames := 0\<rparr>"

subsection \<open>Presentation\<close>

text \<open>
  A slide is the dictionary read from the scene's JSON file. The key \<^verbatim>\<open>"terminated"\<close>
  is not part of that file: the constructor adds it to the last slide only, so it is
  optional here and reading it where it is absent raises \<open>KeyError\<close>. The other keys are
  taken to be present.
\<close>

record slide =
  type :: string
  start_animation :: int
  end_animation :: int
  number :: int
  terminated :: "bool option"

record config =
  config_slides :: "slide list"
  config_files :: "(frame list \<times> pyfloat) list"

text \<open>
  The attribute \<^verbatim>\<open>lastframe\<close> does not exist until the first successful read assigns it:
  \<open>None\<close> is the missing attribute, and reading it then raises \<open>AttributeError\<close>.
\<close>

record presentation =
  slides :: "slide list"
  files :: "(frame list \<times> pyfloat) list"
  caps :: "cap list"
  current_animation :: int
  current_slide_i :: int
  lastframe :: "frame option"

definition reset :: "presentation \<Rightarrow> error + presentation" where
  "reset p =
     (let p1 = p\<lparr>current_animation := 0, current_slide_i := 0\<rparr>
      in case py_index (slides p1) (- 1) of
           Inl e \<Rightarrow> Inl e
         | Inr j \<Rightarrow>
             Inr (p1\<lparr>slides := (slides p1)[j := (slides p1 ! j)\<lparr>terminated := Some False\<rparr>]\<rparr>))"

definition load_files :: "presentation \<Rightarrow> presentation" where
  "load_files p = p\<lparr>caps := map VideoCapture (files p)\<rparr>"

definition Presentation :: "config \<Rightarrow> error + presentation" where
  "Presentation cfg =
     (case reset \<lparr>slides = config_slides cfg, files = config_files cfg, caps = [],
                   current_animation = 0, current_slide_i = 0, lastframe = None\<rparr> of
        Inl e \<Rightarrow> Inl e
      | Inr p1 \<Rightarrow>
          (let p2 = load_files p1
           in case py_index (slides p2) (- 1) of
                Inl e \<Rightarrow> Inl e
              | Inr j \<Rightarrow>
                  Inr (p2\<lparr>slides := (slides p2)
                         [j := (slides p2 ! j)\<lparr>type := ''last'', terminated := Some False\<rparr>]\<rparr>)))"

definition current_slide :: "presentation \<Rightarrow> error + slide" where
  "current_slide p = py_get (slides p) (current_slide_i p)"

definition current_cap :: "presentation \<Rightarrow> error + cap" where
  "current_cap p = py_get (caps p) (current_animation p)"

definition fps :: "presentation \<Rightarrow> error + pyfloat" where
  "fps p = (case current_cap p of Inl e \<Rightarrow> Inl e | Inr c \<Rightarrow> Inr (prop_fps c))"

text \<open>\<^verbatim>\<open>self.current_cap.set(cv2.CAP_PROP_POS_FRAMES, 0)\<close>\<close>

definition seek_current_cap :: "presentation \<Rightarrow> error + presentation" where
  "seek_current_cap p =
     (case py_index (caps p) (current_animation p) of
        Inl e \<Rightarrow> Inl e
      | Inr j \<Rightarrow> Inr (p\<lparr>caps := (caps p)[j := cap_set_pos0 (caps p ! j)]\<rparr>))"

definition rewind :: "presentation \<Rightarrow> error + presentation" where
  "rewind p =
     (case current_slide p of
        Inl e \<Rightarrow> Inl e
      | Inr s \<Rightarrow> seek_current_cap (p\<lparr>current_animation := start_animation s\<rparr>))"

definition next_slide :: "presentation \<Rightarrow> error + presentation" where
  "next_slide p =
     (case py_index (slides p) (current_slide_i p) of
        Inl e \<Rightarrow> Inl e
      | Inr j \<Rightarrow>
          if type (slides p ! j) = ''last''
          then Inr (p\<lparr>slides := (slides p)[j := (slides p ! j)\<lparr>terminated := Some True\<rparr>]\<rparr>)
          else rewind (p\<lparr>current_slide_i :=
                            min (int (length (slides p)) - 1) (current_slide_i p + 1)\<rparr>))"

definition prev :: "presentation \<Rightarrow> error + presentation" where
  "prev p = rewind (p\<lparr>current_slide_i := max 0 (current_slide_i p - 1)\<rparr>)"

text \<open>\<^verbatim>\<open>self.lastframe\<close>, read.\<close>

definition get_lastframe :: "presentation \<Rightarrow> error + frame" where
  "get_lastframe p = (case lastframe p of None \<Rightarrow> Inl AttributeError | Some f \<Rightarrow> Inr f)"

text \<open>\<^verbatim>\<open>self.current_slide["terminated"]\<close>, read.\<close>

definition get_terminated :: "slide \<Rightarrow> error + bool" where
  "get_terminated s = (case terminated s of None \<Rightarrow> Inl KeyError | Some b \<Rightarrow> Inr b)"

text \<open>
  \<^verbatim>\<open>still_playing, frame = self.current_cap.read()\<close> followed by the assignment of
  \<^verbatim>\<open>lastframe\<close> when the read succeeded.
\<close>

definition read_current_cap :: "presentation \<Rightarrow> error + (bool \<times> presentation)" where
  "read_current_cap p =
     (case py_index (caps p) (current_animation p) of
        Inl e \<Rightarrow> Inl e
      | Inr j \<Rightarrow>
          (case cap_read (caps p ! j) of
             (still_playing, frame, c) \<Rightarrow>
               (let p1 = p\<lparr>caps := (caps p)[j := c]\<rparr>
                in Inr (still_playing,
                        if still_playing then p1\<lparr>lastframe := frame\<rparr> else p1))))"

text \<open>\<^verbatim>\<open>return self.lastframe, state\<close>\<close>

definition return_frame ::
  "presentation \<Rightarrow> State \<Rightarrow> error + (frame \<times> State \<times> presentation)" where
  "return_frame p st = (case get_lastframe p of Inl e \<Rightarrow> Inl e | Inr f \<Rightarrow> Inr (f, st, p))"

text \<open>The branch of \<^verbatim>\<open>update_state\<close> taken when the read failed.\<close>

definition segment_exhausted ::
  "presentation \<Rightarrow> slide \<Rightarrow> State \<Rightarrow> error + (State \<times> presentation)" where
  "segment_exhausted p s st =
     (if end_animation s = current_animation p + 1 then
        (if type s = ''slide'' then Inr (WAIT, p)
         else if type s = ''loop'' then
           (case rewind (p\<lparr>current_animation := start_animation s\<rparr>) of
              Inl e \<Rightarrow> Inl e
            | Inr p1 \<Rightarrow> Inr (PLAYING, p1))
         else if type s = ''last'' then Inr (WAIT, p)
         else Inr (st, p))
      else if type s = ''last'' \<and> end_animation s = current_animation p then Inr (WAIT, p)
      else
        (case seek_current_cap (p\<lparr>current_animation := current_animation p + 1\<rparr>) of
           Inl e \<Rightarrow> Inl e
         | Inr p1 \<Rightarrow> Inr (st, p1)))"

definition update_state ::
  "presentation \<Rightarrow> State \<Rightarrow> error + (frame \<times> State \<times> presentation)" where
  "update_state p st =
     (case read_current_cap p of
        Inl e \<Rightarrow> Inl e
      | Inr (still_playing, p1) \<Rightarrow>
          if st = WAIT \<or> st = PAUSED then return_frame p1 st
          else
            (case current_slide p1 of
               Inl e \<Rightarrow> Inl e
             | Inr s \<Rightarrow>
                 (case (if type s = ''last'' then get_terminated s else Inr False) of
                    Inl e \<Rightarrow> Inl e
                  | Inr True \<Rightarrow> return_frame p1 END
                  | Inr False \<Rightarrow>
                      if \<not> still_playing then
                        (case segment_exhausted p1 s st of
                           Inl e \<Rightarrow> Inl e
                         | Inr (st1, p2) \<Rightarrow> return_frame p2 st1)
                      else return_frame p1 st)))"

subsection \<open>Display\<close>

record display =
  presentations :: "presentation list"
  start_paused :: bool
  state :: State
  display_lastframe :: "frame option"
  current_presentation_i :: int
  lag :: int
  last_time :: int

definition current_presentation :: "display \<Rightarrow> error + presentation" where
  "current_presentation d = py_get (presentations d) (current_presentation_i d)"

text \<open>\<^verbatim>\<open>sys.exit()\<close> in \<^verbatim>\<open>quit\<close> raises.\<close>

definition quit :: "display \<Rightarrow> error + display" where
  "quit d = Inl SystemExit"

text \<open>
  \<^verbatim>\<open>sleep_time = math.ceil(1000/self.current_presentation.fps)\<close>: the float division,
  with its rounding \<open>round_double\<close>, then \<^verbatim>\<open>math.ceil\<close> of the rounded quotient.
\<close>

definition sleep_time :: "(real \<Rightarrow> pyfloat) \<Rightarrow> display \<Rightarrow> error + int" where
  "sleep_time round_double d =
     (case current_presentation d of
        Inl e \<Rightarrow> Inl e
      | Inr p \<Rightarrow>
          (case fps p of
             Inl e \<Rightarrow> Inl e
           | Inr x \<Rightarrow>
               (case truediv_1000 round_double x of
                  Inl e \<Rightarrow> Inl e
                | Inr y \<Rightarrow> math_ceil y)))"

text \<open>
  The argument of \<^verbatim>\<open>cv2.waitKey\<close> in \<^verbatim>\<open>handle_key\<close>: how long the tick blocks while it
  polls the keyboard.
\<close>

definition wait_delay :: "(real \<Rightarrow> pyfloat) \<Rightarrow> display \<Rightarrow> error + int" where
  "wait_delay round_double d =
     (case sleep_time round_double d of
        Inl e \<Rightarrow> Inl e
      | Inr t \<Rightarrow> Inr (fix_time (t - lag d)))"

text \<open>
  A method call on \<^verbatim>\<open>self.current_presentation\<close> mutates the deck the list holds at
  \<^verbatim>\<open>current_presentation_i\<close>.
\<close>

definition on_current_presentation ::
  "(presentation \<Rightarrow> error + presentation) \<Rightarrow> display \<Rightarrow> error + display" where
  "on_current_presentation f d =
     (case py_index (presentations d) (current_presentation_i d) of
        Inl e \<Rightarrow> Inl e
      | Inr j \<Rightarrow>
          (case f (presentations d ! j) of
             Inl e \<Rightarrow> Inl e
           | Inr p \<Rightarrow> Inr (d\<lparr>presentations := (presentations d)[j := p]\<rparr>)))"

definition set_state :: "State \<Rightarrow> error + display \<Rightarrow> error + display" where
  "set_state st r = (case r of Inl e \<Rightarrow> Inl e | Inr d \<Rightarrow> Inr (d\<lparr>state := st\<rparr>))"

text \<open>
  \<^verbatim>\<open>handle_key\<close>; \<open>k\<close> is what \<^verbatim>\<open>cv2.waitKey\<close> returns for this tick (\<open>-1\<close> when no key was
  pressed).
\<close>

definition handle_key :: "(real \<Rightarrow> pyfloat) \<Rightarrow> display \<Rightarrow> int \<Rightarrow> error + display" where
  "handle_key round_double d k =
     (case wait_delay round_double d of
        Inl e \<Rightarrow> Inl e
      | Inr w \<Rightarrow>
          (let key = k AND 255 in
           if key = QUIT_KEY then quit d
           else if state d = PLAYING \<and> key = PLAYPAUSE_KEY then Inr (d\<lparr>state := PAUSED\<rparr>)
           else if state d = PAUSED \<and> key = PLAYPAUSE_KEY then Inr (d\<lparr>state := PLAYING\<rparr>)
           else if state d = WAIT \<and> (key = CONTINUE_KEY \<or> key = PLAYPAUSE_KEY)
             then set_state PLAYING (on_current_presentation next_slide d)
           else if state d = PLAYING \<and> key = CONTINUE_KEY
             then on_current_presentation next_slide d
           else if key = BACK_KEY then
             (case current_presentation d of
                Inl e \<Rightarrow> Inl e
              | Inr p \<Rightarrow>
                  if current_slide_i p = 0
                  then set_state PLAYING
                         (on_current_presentation reset
                            (d\<lparr>current_presentation_i := max 0 (current_presentation_i d - 1)\<rparr>))
                  else set_state PLAYING (on_current_presentation prev d))
           else if key = REWIND_KEY
             then set_state PLAYING (on_current_presentation rewind d)
           else Inr d))"

section \<open>manim\_slides/config.py\<close>

definition msg_nothing_played :: string where
  "msg_nothing_played =
     ''You have to play at least one animation (e.g., `self.wait()`) before pausing. '' @
     ''If you want to start paused, use the approriate command-line option when presenting. '' @
     ''IMPORTANT: when using ManimGL, `self.wait()` is not considered to be an animation, '' @
     ''so prefer to directly use `self.play(...)`.''"

definition msg_not_before :: string where
  "msg_not_before = ''Start animation index must be strictly lower than end animation index''"

text \<open>
  \<^verbatim>\<open>SlideConfig.start_animation_is_before_end\<close>, the validator that runs on the raw
  values of a slide before the fields are parsed.
\<close>

definition start_animation_is_before_end :: "slide \<Rightarrow> error + slide" where
  "start_animation_is_before_end values =
     (if start_animation values \<ge> end_animation values then
        (if start_animation values = end_animation values \<and> end_animation values = 0
         then Inl (ValueError msg_nothing_played)
         else Inl (ValueError msg_not_before))
      else Inr values)"

section \<open>Observing calls\<close>

text \<open>The state a call of \<open>update_state\<close> returned, if it returned.\<close>

definition returned_state :: "error + (frame \<times> State \<times> presentation) \<Rightarrow> State option" where
  "returned_state r = (case r of Inl e \<Rightarrow> None | Inr (f, st, p) \<Rightarrow> Some st)"

text \<open>
  A run of successive \<open>update_state\<close> calls on one deck, one call per incoming state, each
  on the deck the call before left; the result lists the states returned. An exception
  ends the run.
\<close>

fun update_states :: "presentation \<Rightarrow> State list \<Rightarrow> error + (State list \<times> presentation)" where
  "update_states p [] = Inr ([], p)"
| "update_states p (st # sts) =
     (case update_state p st of
        Inl e \<Rightarrow> Inl e
      | Inr (f, st', p') \<Rightarrow>
          (case update_states p' sts of
             Inl e \<Rightarrow> Inl e
           | Inr (out, p'') \<Rightarrow> Inr (st' # out, p'')))"




section \<open>Example decks\<close>

text \<open>
  Every example segment runs at 30 frames per second, so the only quotient the examples
  round is \<open>1000 / 30\<close>. The double nearest to it is \<open>4691249611844267 / 2 ^ 47\<close>, which
  Python prints as \<open>33.333333333333336\<close>; \<open>round_30\<close> is the rounding as far as the
  examples need it.
\<close>

definition round_30 :: "real \<Rightarrow> pyfloat" where
  "round_30 r = Finite (4691249611844267 / 2 ^ 47)"

text \<open>
  The deck of the specification's scenario: three segments and two slides, slide A over
  segments 0 and 1, slide B over segment 2. Slide B is configured as a loop; the
  constructor makes it the terminal slide.
\<close>

definition slide_A :: slide where
  "slide_A = \<lparr>type = ''slide'', start_animation = 0, end_animation = 2, number = 1,
              terminated = None\<rparr>"

definition slide_B :: slide where
  "slide_B = \<lparr>type = ''loop'', start_animation = 2, end_animation = 3, number = 2,
              terminated = None\<rparr>"

definition scene_config :: config where
  "scene_config =
     \<lparr>config_slides = [slide_A, slide_B],
      config_files = [([10, 11], Finite 30), ([20], Finite 30), ([30, 31], Finite 30)]\<rparr>"

definition scene_deck :: presentation where
  "scene_deck =
     \<lparr>slides = [slide_A, slide_B\<lparr>type := ''last'', terminated := Some False\<rparr>],
      files = [([10, 11], Finite 30), ([20], Finite 30), ([30, 31], Finite 30)],
      caps = [\<lparr>frames = [10, 11], pos_frames = 0, prop_fps = Finite 30\<rparr>,
              \<lparr>frames = [20], pos_frames = 0, prop_fps = Finite 30\<rparr>,
              \<lparr>frames = [30, 31], pos_frames = 0, prop_fps = Finite 30\<rparr>],
      current_animation = 0, current_slide_i = 0, lastframe = None\<rparr>"


text \<open>
  The same deck on slide B: the presenter continued after the first frame of segment 0,
  and one frame of segment 2 has been shown.
\<close>

definition last_slide_deck :: presentation where
  "last_slide_deck =
     \<lparr>slides = [slide_A, slide_B\<lparr>type := ''last'', terminated := Some False\<rparr>],
      files = [([10, 11], Finite 30), ([20], Finite 30), ([30, 31], Finite 30)],
      caps = [\<lparr>frames = [10, 11], pos_frames = 1, prop_fps = Finite 30\<rparr>,
              \<lparr>frames = [20], pos_frames = 0, prop_fps = Finite 30\<rparr>,
              \<lparr>frames = [30, 31], pos_frames = 1, prop_fps = Finite 30\<rparr>],
      current_animation = 2, current_slide_i = 1, lastframe = Some 30\<rparr>"

text \<open>And after \<^verbatim>\<open>next()\<close> there: slide B is terminated.\<close>

definition ended_deck :: presentation where
  "ended_deck =
     \<lparr>slides = [slide_A, slide_B\<lparr>type := ''last'', terminated := Some True\<rparr>],
      files = [([10, 11], Finite 30), ([20], Finite 30), ([30, 31], Finite 30)],
      caps = [\<lparr>frames = [10, 11], pos_frames = 1, prop_fps = Finite 30\<rparr>,
              \<lparr>frames = [20], pos_frames = 0, prop_fps = Finite 30\<rparr>,
              \<lparr>frames = [30, 31], pos_frames = 1, prop_fps = Finite 30\<rparr>],
      current_animation = 2, current_slide_i = 1, lastframe = Some 30\<rparr>"

text \<open>A deck that opens with a loop over one segment, the segment played to its end.\<close>

definition loop_slide :: slide where
  "loop_slide = \<lparr>type = ''loop'', start_animation = 0, end_animation = 1, number = 1,
                 terminated = None\<rparr>"

definition loop_deck :: presentation where
  "loop_deck =
     \<lparr>slides = [loop_slide,
                 \<lparr>type = ''last'', start_animation = 1, end_animation = 2, number = 2,
                  terminated = Some False\<rparr>],
      files = [([10, 11], Finite 30), ([20], Finite 30)],
      caps = [\<lparr>frames = [10, 11], pos_frames = 2, prop_fps = Finite 30\<rparr>,
              \<lparr>frames = [20], pos_frames = 0, prop_fps = Finite 30\<rparr>],
      current_animation = 0, current_slide_i = 0, lastframe = Some 11\<rparr>"

text \<open>The scenario's deck after its first frame, alone in a session.\<close>

definition playing_deck :: presentation where
  "playing_deck =
     \<lparr>slides = [slide_A, slide_B\<lparr>type := ''last'', terminated := Some False\<rparr>],
      files = [([10, 11], Finite 30), ([20], Finite 30), ([30, 31], Finite 30)],
      caps = [\<lparr>frames = [10, 11], pos_frames = 1, prop_fps = Finite 30\<rparr>,
              \<lparr>frames = [20], pos_frames = 0, prop_fps = Finite 30\<rparr>,
              \<lparr>frames = [30, 31], pos_frames = 0, prop_fps = Finite 30\<rparr>],
      current_animation = 0, current_slide_i = 0, lastframe = Some 10\<rparr>"

definition playing_display :: display where
  "playing_display =
     \<lparr>presentations = [playing_deck], start_paused = False, state = PLAYING,
      display_lastframe = Some 10, current_presentation_i = 0, lag = 0, last_time = 0\<rparr>"

text \<open>A session of two decks, the first one ended, the second one just begun.\<close>

definition two_deck_display :: display where
  "two_deck_display =
     \<lparr>presentations = [ended_deck, scene_deck], start_paused = False, state = PLAYING,
      display_lastframe = Some 30, current_presentation_i = 1, lag = 0, last_time = 0\<rparr>"





section \<open>Indexing lemmas\<close>

lemma py_index_less: "py_index xs i = Inr j \<Longrightarrow> j < length xs"
  by (auto simp add: py_index_def Let_def split: if_splits)

lemma py_index_nonneg:
  "0 \<le> i \<Longrightarrow> i < int (length xs) \<Longrightarrow> py_index xs i = Inr (nat i)"
  by (simp add: py_index_def Let_def)

lemma py_index_update [simp]: "py_index (xs[j := x]) i = py_index xs i"
  by (simp add: py_index_def)

lemma py_index_minus1: "xs \<noteq> [] \<Longrightarrow> py_index xs (- 1) = Inr (length xs - 1)"
  by (cases xs) (auto simp add: py_index_def Let_def)

section \<open>Lemmas about the deck's methods\<close>

lemma current_slide_Inr:
  "current_slide p = Inr s \<longleftrightarrow>
     (\<exists>j. py_index (slides p) (current_slide_i p) = Inr j \<and> s = slides p ! j)"
  by (auto simp add: current_slide_def py_get_def split: sum.splits)

lemma rewind_explicit:
  assumes "py_index (slides q) (current_slide_i q) = Inr i"
      and "py_index (caps q) (start_animation (slides q ! i)) = Inr k"
  shows "rewind q =
           Inr (q\<lparr>current_animation := start_animation (slides q ! i),
                  caps := (caps q)[k := (caps q ! k)\<lparr>pos_frames := 0\<rparr>]\<rparr>)"
  using assms
  by (simp add: rewind_def current_slide_def py_get_def seek_current_cap_def cap_set_pos0_def)

lemma next_slide_last:
  assumes "current_slide p = Inr s" and "type s = ''last''"
  shows "\<exists>p'. next_slide p = Inr p'
           \<and> current_slide p' = Inr (s\<lparr>terminated := Some True\<rparr>)
           \<and> current_slide_i p' = current_slide_i p
           \<and> current_animation p' = current_animation p
           \<and> caps p' = caps p \<and> lastframe p' = lastframe p"
proof -
  from assms(1) obtain j where j: "py_index (slides p) (current_slide_i p) = Inr j"
    and sj: "s = slides p ! j"
    by (auto simp add: current_slide_Inr)
  have "j < length (slides p)" using j by (rule py_index_less)
  with j sj assms(2) show ?thesis
    by (simp add: next_slide_def current_slide_def py_get_def)
qed

lemma read_current_cap_exhausted:
  assumes "py_index (caps p) (current_animation p) = Inr j"
      and "\<not> pos_frames (caps p ! j) < length (frames (caps p ! j))"
  shows "read_current_cap p = Inr (False, p)"
  using assms by (simp add: read_current_cap_def cap_read_def)

lemma read_current_cap_frame:
  assumes "py_index (caps p) (current_animation p) = Inr j"
      and "pos_frames (caps p ! j) < length (frames (caps p ! j))"
  shows "read_current_cap p =
           Inr (True,
                p\<lparr>caps := (caps p)[j := (caps p ! j)\<lparr>pos_frames := pos_frames (caps p ! j) + 1\<rparr>],
                  lastframe := Some (frames (caps p ! j) ! pos_frames (caps p ! j))\<rparr>)"
  using assms by (simp add: read_current_cap_def cap_read_def)

lemma read_current_cap_cursor:
  assumes "read_current_cap p = Inr (b, p1)"
  shows "slides p1 = slides p \<and> current_slide_i p1 = current_slide_i p
       \<and> current_animation p1 = current_animation p \<and> length (caps p1) = length (caps p)
       \<and> current_slide p1 = current_slide p"
  using assms
  by (auto simp add: read_current_cap_def cap_read_def current_slide_def
        split: sum.splits if_splits)

lemma read_current_cap_available:
  assumes j: "py_index (caps p) (current_animation p) = Inr j"
      and fr: "lastframe p \<noteq> None \<or> pos_frames (caps p ! j) < length (frames (caps p ! j))"
  shows "\<exists>b p1 f. read_current_cap p = Inr (b, p1) \<and> lastframe p1 = Some f"
proof (cases "pos_frames (caps p ! j) < length (frames (caps p ! j))")
  case True
  from read_current_cap_frame [OF j True] show ?thesis by auto
next
  case False
  with fr obtain f where "lastframe p = Some f" by auto
  with read_current_cap_exhausted [OF j False] show ?thesis by auto
qed

lemma return_frame_state: "return_frame p st = Inr (f, st', p') \<Longrightarrow> st' = st"
  by (auto simp add: return_frame_def split: sum.splits)

lemma return_frame_Some: "lastframe p = Some f \<Longrightarrow> return_frame p st = Inr (f, st, p)"
  by (simp add: return_frame_def get_lastframe_def)


lemma segment_exhausted_loop_state:
  assumes "type s = ''loop''" and "segment_exhausted p s st = Inr (st1, p1)"
  shows "st1 = st \<or> st1 = PLAYING"
  using assms by (auto simp add: segment_exhausted_def split: if_splits sum.splits)

lemma update_state_loop_rewinds:
  assumes s: "current_slide p = Inr s" and loop: "type s = ''loop''"
      and j: "py_index (caps p) (current_animation p) = Inr j"
      and ex: "\<not> pos_frames (caps p ! j) < length (frames (caps p ! j))"
      and lst: "end_animation s = current_animation p + 1"
      and k: "py_index (caps p) (start_animation s) = Inr k"
      and f: "lastframe p = Some f"
  shows "update_state p PLAYING =
           Inr (f, PLAYING, p\<lparr>current_animation := start_animation s,
                               caps := (caps p)[k := (caps p ! k)\<lparr>pos_frames := 0\<rparr>]\<rparr>)"
proof -
  let ?p' = "p\<lparr>current_animation := start_animation s,
               caps := (caps p)[k := (caps p ! k)\<lparr>pos_frames := 0\<rparr>]\<rparr>"
  from s obtain i where i: "py_index (slides p) (current_slide_i p) = Inr i"
    and si: "s = slides p ! i"
    by (auto simp add: current_slide_Inr)
  have r: "read_current_cap p = Inr (False, p)"
    using j ex by (rule read_current_cap_exhausted)
  have "rewind (p\<lparr>current_animation := start_animation s\<rparr>) = Inr ?p'"
    using rewind_explicit [of "p\<lparr>current_animation := start_animation s\<rparr>" i k] i si k
    by simp
  then have e: "segment_exhausted p s PLAYING = Inr (PLAYING, ?p')"
    using loop lst by (simp add: segment_exhausted_def)
  have "lastframe ?p' = Some f" using f by simp
  then have "return_frame ?p' PLAYING = Inr (f, PLAYING, ?p')" by (rule return_frame_Some)
  with r s loop e show ?thesis by (simp add: update_state_def)
qed

lemma update_state_loop_never_wait:
  assumes s: "current_slide p = Inr s" and loop: "type s = ''loop''" and st: "st \<noteq> WAIT"
  shows "update_state p st \<noteq> Inr (f, WAIT, p')"
proof
  assume u: "update_state p st = Inr (f, WAIT, p')"
  then obtain b p1 where r: "read_current_cap p = Inr (b, p1)"
    by (auto simp add: update_state_def split: sum.splits)
  then have s1: "current_slide p1 = Inr s" using s read_current_cap_cursor by simp
  show False
  proof (cases "st = PAUSED")
    case True
    with u r have "return_frame p1 st = Inr (f, WAIT, p')" by (simp add: update_state_def)
    then show False using st return_frame_state by fastforce
  next
    case False
    show False
    proof (cases b)
      case True
      with u r s1 loop st False have "return_frame p1 st = Inr (f, WAIT, p')"
        by (simp add: update_state_def)
      then show False using st return_frame_state by fastforce
    next
      case nb: False
      with u r s1 loop st \<open>st \<noteq> PAUSED\<close> obtain st1 p2
        where e: "segment_exhausted p1 s st = Inr (st1, p2)"
          and rf: "return_frame p2 st1 = Inr (f, WAIT, p')"
        by (auto simp add: update_state_def split: sum.splits)
      from rf have "st1 = WAIT" using return_frame_state by fastforce
      with segment_exhausted_loop_state [OF loop e] st show False by simp
    qed
  qed
qed


lemma update_state_terminated_any:
  assumes s: "current_slide p = Inr s" and l: "type s = ''last''"
      and t: "terminated s = Some True"
      and j: "py_index (caps p) (current_animation p) = Inr j"
      and fr: "lastframe p \<noteq> None \<or> pos_frames (caps p ! j) < length (frames (caps p ! j))"
  shows "\<exists>f p'. update_state p st =
                    Inr (f, if st = WAIT \<or> st = PAUSED then st else END, p')
           \<and> current_slide p' = Inr s
           \<and> py_index (caps p') (current_animation p') = Inr j
           \<and> lastframe p' \<noteq> None
           \<and> slides p' = slides p \<and> current_slide_i p' = current_slide_i p
           \<and> current_animation p' = current_animation p"
proof -
  from read_current_cap_available [OF j fr] obtain b p1 f
    where r: "read_current_cap p = Inr (b, p1)" and f: "lastframe p1 = Some f" by blast
  note c = read_current_cap_cursor [OF r]
  have s1: "current_slide p1 = Inr s" using c s by simp
  have j1: "py_index (caps p1) (current_animation p1) = Inr j"
    using c j by (simp add: py_index_def)
  have "update_state p st = Inr (f, if st = WAIT \<or> st = PAUSED then st else END, p1)"
    using r s1 l t return_frame_Some [OF f]
    by (simp add: update_state_def get_terminated_def)
  with s1 j1 f c show ?thesis by simp
qed

lemma update_states_terminated_any:
  assumes s: "current_slide p = Inr s" and l: "type s = ''last''"
      and t: "terminated s = Some True"
      and j: "py_index (caps p) (current_animation p) = Inr j"
      and fr: "lastframe p \<noteq> None \<or> pos_frames (caps p ! j) < length (frames (caps p ! j))"
  shows "\<exists>p'. update_states p sts =
                  Inr (map (\<lambda>st. if st = WAIT \<or> st = PAUSED then st else END) sts, p')
           \<and> slides p' = slides p \<and> current_slide_i p' = current_slide_i p
           \<and> current_animation p' = current_animation p"
  using s j fr
proof (induction sts arbitrary: p)
  case Nil
  then show ?case by simp
next
  case (Cons st sts)
  from update_state_terminated_any [OF Cons.prems(1) l t Cons.prems(2) Cons.prems(3), of st]
  obtain f p' where u: "update_state p st =
                          Inr (f, if st = WAIT \<or> st = PAUSED then st else END, p')"
    and s': "current_slide p' = Inr s"
    and j': "py_index (caps p') (current_animation p') = Inr j"
    and f': "lastframe p' \<noteq> None"
    and c': "slides p' = slides p" "current_slide_i p' = current_slide_i p"
      "current_animation p' = current_animation p" by blast
  from Cons.IH [OF s' j' disjI1 [OF f']]
  obtain p'' where "update_states p' sts =
                      Inr (map (\<lambda>st. if st = WAIT \<or> st = PAUSED then st else END) sts, p'')"
    and "slides p'' = slides p'" "current_slide_i p'' = current_slide_i p'"
      "current_animation p'' = current_animation p'" by blast
  with u c' show ?case by simp
qed


section \<open>The frame clock\<close>




section \<open>Validation of a slide's range\<close>

text \<open>
  Claim C7. The validator rejects every slide whose \<open>start_animation\<close> is not below its
  \<open>end_animation\<close>: with the message about playing at least one animation when both are
  zero, with the message that start must be strictly lower than end otherwise, and the
  two messages differ. A slide with \<open>start_animation < end_animation\<close> passes unchanged.
\<close>

theorem start_animation_is_before_end_cases:
  "(end_animation v \<le> start_animation v \<longrightarrow>
      (\<exists>m. start_animation_is_before_end v = Inl (ValueError m)))
   \<and> (start_animation v = 0 \<and> end_animation v = 0 \<longrightarrow>
      start_animation_is_before_end v = Inl (ValueError msg_nothing_played))
   \<and> (end_animation v \<le> start_animation v \<and> \<not> (start_animation v = 0 \<and> end_animation v = 0) \<longrightarrow>
      start_animation_is_before_end v = Inl (ValueError msg_not_before))
   \<and> (start_animation v < end_animation v \<longrightarrow> start_animation_is_before_end v = Inr v)
   \<and> msg_nothing_played \<noteq> msg_not_before"
  by (auto simp add: start_animation_is_before_end_def msg_nothing_played_def
        msg_not_before_def)

theorem start_animation_is_before_end_cases_witness:
  "start_animation_is_before_end (slide_A\<lparr>end_animation := 0\<rparr>) =
     Inl (ValueError msg_nothing_played)
   \<and> start_animation_is_before_end (slide_B\<lparr>end_animation := 2\<rparr>) =
     Inl (ValueError msg_not_before)
   \<and> start_animation_is_before_end slide_A = Inr slide_A"
  using start_animation_is_before_end_cases [of "slide_A\<lparr>end_animation := 0\<rparr>"]
        start_animation_is_before_end_cases [of "slide_B\<lparr>end_animation := 2\<rparr>"]
        start_animation_is_before_end_cases [of slide_A]
  by (simp add: slide_A_def slide_B_def)

section \<open>The playback state machine\<close>

text \<open>
  Claim C3. A call of \<open>update_state\<close> with incoming state \<open>WAIT\<close> or \<open>PAUSED\<close>, on a deck
  whose current segment exists and that has a frame to return (one cached, or one the
  read delivers), returns the incoming state and leaves the slide index, the animation
  index and the slides as they were. The read has happened all the same: the current
  segment is the one left by \<open>cap_read\<close>, and when a frame was left to read its decode
  position has moved on by one.
\<close>

theorem update_state_wait_paused:
  assumes "st = WAIT \<or> st = PAUSED"
      and j: "py_index (caps p) (current_animation p) = Inr j"
      and "lastframe p \<noteq> None \<or> pos_frames (caps p ! j) < length (frames (caps p ! j))"
  shows "\<exists>f p'. update_state p st = Inr (f, st, p')
           \<and> current_slide_i p' = current_slide_i p
           \<and> current_animation p' = current_animation p
           \<and> slides p' = slides p
           \<and> caps p' = (caps p)[j := snd (snd (cap_read (caps p ! j)))]
           \<and> (pos_frames (caps p ! j) < length (frames (caps p ! j)) \<longrightarrow>
                pos_frames (caps p' ! j) = pos_frames (caps p ! j) + 1)"
  using assms py_index_less [OF j]
  by (auto simp add: update_state_def read_current_cap_def return_frame_def get_lastframe_def
        cap_read_def Let_def)

theorem update_state_wait_paused_witness:
  "py_index (caps scene_deck) (current_animation scene_deck) = Inr 0
   \<and> pos_frames (caps scene_deck ! 0) < length (frames (caps scene_deck ! 0))
   \<and> (\<exists>f p'. update_state scene_deck PAUSED = Inr (f, PAUSED, p')
         \<and> current_slide_i p' = 0 \<and> current_animation p' = 0
         \<and> pos_frames (caps p' ! 0) = 1)"
proof -
  have h1: "PAUSED = WAIT \<or> PAUSED = PAUSED" by simp
  have h2: "py_index (caps scene_deck) (current_animation scene_deck) = Inr 0"
    by (simp add: scene_deck_def py_index_def)
  have h3: "pos_frames (caps scene_deck ! 0) < length (frames (caps scene_deck ! 0))"
    by (simp add: scene_deck_def)
  have h4: "current_slide_i scene_deck = 0" "current_animation scene_deck = 0"
    "pos_frames (caps scene_deck ! 0) = 0"
    by (simp_all add: scene_deck_def)
  from update_state_wait_paused [OF h1 h2 disjI2, OF h3] h2 h3 h4 show ?thesis
    by auto
qed

text \<open>
  The claim C1 as written says that a terminated last slide makes every call return
  \<open>END\<close>, whatever the incoming state. On the terminated deck a call with incoming state
  \<open>PAUSED\<close> returns \<open>PAUSED\<close>, and one with \<open>WAIT\<close> returns \<open>WAIT\<close>: the test of the
  incoming state comes first.
\<close>

theorem update_state_terminated_counterexample:
  "current_slide ended_deck = Inr (slide_B\<lparr>type := ''last'', terminated := Some True\<rparr>)
   \<and> returned_state (update_state ended_deck PAUSED) = Some PAUSED
   \<and> returned_state (update_state ended_deck WAIT) = Some WAIT"
  by (simp add: ended_deck_def returned_state_def update_state_def read_current_cap_def
      py_index_def cap_read_def return_frame_def get_lastframe_def current_slide_def py_get_def)

text \<open>
  Claim C1, amended. On a deck whose current slide is the terminal slide, whose current
  segment exists and which has a frame to return (cached, or delivered by the read): if
  the slide is terminated, a call of \<open>update_state\<close> with an incoming state other than
  \<open>WAIT\<close> and \<open>PAUSED\<close> returns \<open>END\<close>, whether the read succeeds or fails; with incoming
  state \<open>WAIT\<close> or \<open>PAUSED\<close> it returns the incoming state; either way it changes neither
  the slides nor the cursor. \<^verbatim>\<open>next()\<close> on that slide terminates it, and in every run of
  \<open>update_state\<close> calls that follows, whatever the incoming states, each call whose
  incoming state is not \<open>WAIT\<close> or \<open>PAUSED\<close> returns \<open>END\<close> and each other call returns
  its incoming state.
\<close>

theorem update_state_terminated:
  assumes s: "current_slide p = Inr s" and l: "type s = ''last''"
      and j: "py_index (caps p) (current_animation p) = Inr j"
      and fr: "lastframe p \<noteq> None \<or> pos_frames (caps p ! j) < length (frames (caps p ! j))"
  shows "(terminated s = Some True \<longrightarrow>
           (\<exists>f p'. update_state p st =
                      Inr (f, if st = WAIT \<or> st = PAUSED then st else END, p')
              \<and> slides p' = slides p \<and> current_slide_i p' = current_slide_i p
              \<and> current_animation p' = current_animation p))
       \<and> (st = WAIT \<or> st = PAUSED \<longrightarrow> returned_state (update_state p st) = Some st)
       \<and> (\<exists>q. next_slide p = Inr q
             \<and> current_slide q = Inr (s\<lparr>terminated := Some True\<rparr>)
             \<and> (\<exists>q'. update_states q sts =
                        Inr (map (\<lambda>st. if st = WAIT \<or> st = PAUSED then st else END) sts, q')
                   \<and> slides q' = slides q \<and> current_slide_i q' = current_slide_i q
                   \<and> current_animation q' = current_animation q))"
proof -
  have a: "\<exists>f p'. update_state p st =
                      Inr (f, if st = WAIT \<or> st = PAUSED then st else END, p')
              \<and> slides p' = slides p \<and> current_slide_i p' = current_slide_i p
              \<and> current_animation p' = current_animation p"
    if "terminated s = Some True"
    using update_state_terminated_any [OF s l that j fr, of st] by blast
  have b: "returned_state (update_state p st) = Some st" if "st = WAIT \<or> st = PAUSED"
  proof -
    from read_current_cap_available [OF j fr] obtain b p1 f
      where "read_current_cap p = Inr (b, p1)" and "lastframe p1 = Some f" by blast
    with that show ?thesis
      by (auto simp add: update_state_def returned_state_def return_frame_Some)
  qed
  from next_slide_last [OF s l] obtain q where q: "next_slide p = Inr q"
    and sq: "current_slide q = Inr (s\<lparr>terminated := Some True\<rparr>)"
    and cq: "current_animation q = current_animation p" "caps q = caps p"
      "lastframe q = lastframe p"
    by blast
  have jq: "py_index (caps q) (current_animation q) = Inr j" using j cq by simp
  have fq: "lastframe q \<noteq> None \<or> pos_frames (caps q ! j) < length (frames (caps q ! j))"
    using fr cq by simp
  have c: "\<exists>q'. update_states q sts =
                        Inr (map (\<lambda>st. if st = WAIT \<or> st = PAUSED then st else END) sts, q')
                   \<and> slides q' = slides q \<and> current_slide_i q' = current_slide_i q
                   \<and> current_animation q' = current_animation q"
    using update_states_terminated_any [OF sq _ _ jq fq, of sts] l by simp
  from a b q sq c show ?thesis by blast
qed

theorem update_state_terminated_witness:
  "current_slide last_slide_deck = Inr (slide_B\<lparr>type := ''last'', terminated := Some False\<rparr>)
   \<and> py_index (caps last_slide_deck) (current_animation last_slide_deck) = Inr 2
   \<and> lastframe last_slide_deck \<noteq> None
   \<and> next_slide last_slide_deck = Inr ended_deck
   \<and> (\<exists>q'. update_states ended_deck [PLAYING, PAUSED, PLAYING, WAIT, END] =
               Inr ([END, PAUSED, END, WAIT, END], q'))"
proof -
  have h1: "current_slide last_slide_deck =
              Inr (slide_B\<lparr>type := ''last'', terminated := Some False\<rparr>)"
    by (simp add: last_slide_deck_def current_slide_def py_get_def py_index_def)
  have h2: "type (slide_B\<lparr>type := ''last'', terminated := Some False\<rparr>) = ''last''" by simp
  have h3: "py_index (caps last_slide_deck) (current_animation last_slide_deck) = Inr 2"
    by (simp add: last_slide_deck_def py_index_def)
  have h4: "lastframe last_slide_deck \<noteq> None" by (simp add: last_slide_deck_def)
  have h5: "next_slide last_slide_deck = Inr ended_deck"
    by (simp add: next_slide_def last_slide_deck_def ended_deck_def py_index_def slide_B_def)
  from update_state_terminated [OF h1 h2 h3 disjI1, OF h4, of PLAYING
      "[PLAYING, PAUSED, PLAYING, WAIT, END]"] h5
  have "\<exists>q'. update_states ended_deck [PLAYING, PAUSED, PLAYING, WAIT, END] =
               Inr ([END, PAUSED, END, WAIT, END], q')"
    by auto
  with h1 h3 h4 h5 show ?thesis by simp
qed

text \<open>
  Claim C4. On a loop slide, a call with incoming state \<open>PLAYING\<close> whose read fails on the
  slide's last segment (\<open>end_animation = current_animation + 1\<close>) sets
  \<open>current_animation\<close> to the slide's \<open>start_animation\<close>, moves that segment's decode
  position to its first frame and returns \<open>PLAYING\<close> (given the segment at
  \<open>start_animation\<close> exists and a frame is cached to return). And no call on a loop slide
  with an incoming state other than \<open>WAIT\<close> returns \<open>WAIT\<close>.
\<close>

theorem update_state_loop_exhausted:
  assumes s: "current_slide p = Inr s" and loop: "type s = ''loop''"
  shows "(\<forall>j k f. py_index (caps p) (current_animation p) = Inr j
            \<and> \<not> pos_frames (caps p ! j) < length (frames (caps p ! j))
            \<and> end_animation s = current_animation p + 1
            \<and> py_index (caps p) (start_animation s) = Inr k
            \<and> lastframe p = Some f \<longrightarrow>
            update_state p PLAYING =
              Inr (f, PLAYING,
                   p\<lparr>current_animation := start_animation s,
                     caps := (caps p)[k := (caps p ! k)\<lparr>pos_frames := 0\<rparr>]\<rparr>))
       \<and> (\<forall>st. st \<noteq> WAIT \<longrightarrow> returned_state (update_state p st) \<noteq> Some WAIT)"
proof -
  have "returned_state (update_state p st) \<noteq> Some WAIT" if "st \<noteq> WAIT" for st
    using update_state_loop_never_wait [OF s loop that]
    by (auto simp add: returned_state_def split: sum.splits)
  then show ?thesis
    using update_state_loop_rewinds [OF s loop] by blast
qed

theorem update_state_loop_exhausted_witness:
  "current_slide loop_deck = Inr loop_slide
   \<and> type loop_slide = ''loop''
   \<and> py_index (caps loop_deck) (current_animation loop_deck) = Inr 0
   \<and> \<not> pos_frames (caps loop_deck ! 0) < length (frames (caps loop_deck ! 0))
   \<and> end_animation loop_slide = current_animation loop_deck + 1
   \<and> py_index (caps loop_deck) (start_animation loop_slide) = Inr 0
   \<and> lastframe loop_deck = Some 11
   \<and> update_state loop_deck PLAYING =
       Inr (11, PLAYING,
            loop_deck\<lparr>caps := [\<lparr>frames = [10, 11], pos_frames = 0, prop_fps = Finite 30\<rparr>,
                               \<lparr>frames = [20], pos_frames = 0, prop_fps = Finite 30\<rparr>]\<rparr>)
   \<and> returned_state (update_state loop_deck PLAYING) \<noteq> Some WAIT"
proof -
  have h1: "current_slide loop_deck = Inr loop_slide"
    by (simp add: loop_deck_def current_slide_def py_get_def py_index_def)
  have h2: "type loop_slide = ''loop''" by (simp add: loop_slide_def)
  have h3: "py_index (caps loop_deck) (current_animation loop_deck) = Inr 0"
    by (simp add: loop_deck_def py_index_def)
  have h4: "\<not> pos_frames (caps loop_deck ! 0) < length (frames (caps loop_deck ! 0))"
    by (simp add: loop_deck_def)
  have h5: "end_animation loop_slide = current_animation loop_deck + 1"
    by (simp add: loop_deck_def loop_slide_def)
  have h6: "py_index (caps loop_deck) (start_animation loop_slide) = Inr 0"
    by (simp add: loop_deck_def loop_slide_def py_index_def)
  have h7: "lastframe loop_deck = Some 11" by (simp add: loop_deck_def)
  have h8: "loop_deck\<lparr>current_animation := start_animation loop_slide,
                caps := (caps loop_deck)[0 := (caps loop_deck ! 0)\<lparr>pos_frames := 0\<rparr>]\<rparr> =
            loop_deck\<lparr>caps := [\<lparr>frames = [10, 11], pos_frames = 0, prop_fps = Finite 30\<rparr>,
                               \<lparr>frames = [20], pos_frames = 0, prop_fps = Finite 30\<rparr>]\<rparr>"
    by (simp add: loop_deck_def loop_slide_def)
  from update_state_loop_exhausted [OF h1 h2] h1 h2 h3 h4 h5 h6 h7 h8
  show ?thesis by (metis State.distinct(3))
qed

text \<open>
  Claim C5. \<^verbatim>\<open>next()\<close> on a current slide of type \<open>last\<close> sets that slide's \<open>terminated\<close>
  to true and leaves the slide index, and the animation index and the segments,
  unchanged. On a current slide of any other type it sets the slide index to
  \<open>min (i + 1) (length slides - 1)\<close> and rewinds: when the new slide's first segment
  exists, the animation index becomes that slide's \<open>start_animation\<close> and that segment's
  decode position becomes 0.
\<close>

theorem next_slide_cases:
  assumes s: "current_slide p = Inr s"
  shows "(type s = ''last'' \<longrightarrow>
           (\<exists>p'. next_slide p = Inr p'
              \<and> current_slide p' = Inr (s\<lparr>terminated := Some True\<rparr>)
              \<and> current_slide_i p' = current_slide_i p
              \<and> current_animation p' = current_animation p
              \<and> caps p' = caps p))
       \<and> (type s \<noteq> ''last'' \<longrightarrow>
            next_slide p =
              rewind (p\<lparr>current_slide_i :=
                         min (current_slide_i p + 1) (int (length (slides p)) - 1)\<rparr>))
       \<and> (type s \<noteq> ''last'' \<and> 0 \<le> current_slide_i p \<longrightarrow>
            (\<forall>k. py_index (caps p)
                    (start_animation (slides p !
                       nat (min (current_slide_i p + 1) (int (length (slides p)) - 1)))) = Inr k \<longrightarrow>
                  next_slide p =
                    Inr (p\<lparr>current_slide_i :=
                             min (current_slide_i p + 1) (int (length (slides p)) - 1),
                           current_animation :=
                             start_animation (slides p !
                               nat (min (current_slide_i p + 1) (int (length (slides p)) - 1))),
                           caps := (caps p)[k := (caps p ! k)\<lparr>pos_frames := 0\<rparr>]\<rparr>)))"
proof -
  from s obtain j where j: "py_index (slides p) (current_slide_i p) = Inr j"
    and sj: "s = slides p ! j"
    by (auto simp add: current_slide_Inr)
  have jlen: "j < length (slides p)" using j by (rule py_index_less)
  let ?i = "min (current_slide_i p + 1) (int (length (slides p)) - 1)"
  have a: "type s = ''last'' \<longrightarrow>
           (\<exists>p'. next_slide p = Inr p'
              \<and> current_slide p' = Inr (s\<lparr>terminated := Some True\<rparr>)
              \<and> current_slide_i p' = current_slide_i p
              \<and> current_animation p' = current_animation p
              \<and> caps p' = caps p)"
    using next_slide_last [OF s] by blast
  have b: "type s \<noteq> ''last'' \<longrightarrow> next_slide p = rewind (p\<lparr>current_slide_i := ?i\<rparr>)"
    using j sj by (simp add: next_slide_def min.commute)
  have c: "next_slide p =
             Inr (p\<lparr>current_slide_i := ?i,
                    current_animation := start_animation (slides p ! nat ?i),
                    caps := (caps p)[k := (caps p ! k)\<lparr>pos_frames := 0\<rparr>]\<rparr>)"
    if ns: "type s \<noteq> ''last''" and nn: "0 \<le> current_slide_i p"
      and k: "py_index (caps p) (start_animation (slides p ! nat ?i)) = Inr k" for k
  proof -
    have "0 \<le> ?i" "?i < int (length (slides p))" using nn jlen by auto
    then have i: "py_index (slides p) ?i = Inr (nat ?i)" by (rule py_index_nonneg)
    have "rewind (p\<lparr>current_slide_i := ?i\<rparr>) =
            Inr (p\<lparr>current_slide_i := ?i,
                   current_animation := start_animation (slides p ! nat ?i),
                   caps := (caps p)[k := (caps p ! k)\<lparr>pos_frames := 0\<rparr>]\<rparr>)"
      using rewind_explicit [of "p\<lparr>current_slide_i := ?i\<rparr>" "nat ?i" k] i k by simp
    with b ns show ?thesis by simp
  qed
  from a b c show ?thesis by blast
qed

theorem next_slide_cases_witness:
  "current_slide last_slide_deck = Inr (slide_B\<lparr>type := ''last'', terminated := Some False\<rparr>)
   \<and> (\<exists>p'. next_slide last_slide_deck = Inr p'
         \<and> current_slide p' = Inr (slide_B\<lparr>type := ''last'', terminated := Some True\<rparr>)
         \<and> current_slide_i p' = 1)
   \<and> current_slide scene_deck = Inr slide_A
   \<and> type slide_A \<noteq> ''last'' \<and> 0 \<le> current_slide_i scene_deck
   \<and> next_slide scene_deck =
       Inr (scene_deck\<lparr>current_slide_i := 1, current_animation := 2\<rparr>)"
proof -
  have h1: "current_slide last_slide_deck =
              Inr (slide_B\<lparr>type := ''last'', terminated := Some False\<rparr>)"
    by (simp add: last_slide_deck_def current_slide_def py_get_def py_index_def)
  have h2: "current_slide scene_deck = Inr slide_A"
    by (simp add: scene_deck_def current_slide_def py_get_def py_index_def)
  have h3: "type slide_A \<noteq> ''last''" "0 \<le> current_slide_i scene_deck"
    by (simp_all add: slide_A_def scene_deck_def)
  have h4: "min (current_slide_i scene_deck + 1) (int (length (slides scene_deck)) - 1) = 1"
    by (simp add: scene_deck_def)
  have h5: "start_animation (slides scene_deck ! nat 1) = 2"
    by (simp add: scene_deck_def slide_B_def)
  have h6: "py_index (caps scene_deck) 2 = Inr 2"
    by (simp add: scene_deck_def py_index_def)
  have h7: "scene_deck\<lparr>current_slide_i := 1, current_animation := 2,
              caps := (caps scene_deck)[2 := (caps scene_deck ! 2)\<lparr>pos_frames := 0\<rparr>]\<rparr>
            = scene_deck\<lparr>current_slide_i := 1, current_animation := 2\<rparr>"
    by (simp add: scene_deck_def)
  have h8: "current_slide_i last_slide_deck = 1" by (simp add: last_slide_deck_def)
  from next_slide_cases [OF h1] h8
  have a: "\<exists>p'. next_slide last_slide_deck = Inr p'
         \<and> current_slide p' = Inr (slide_B\<lparr>type := ''last'', terminated := Some True\<rparr>)
         \<and> current_slide_i p' = 1"
    by auto
  from next_slide_cases [OF h2, THEN conjunct2, THEN conjunct2] h3 h4 h5 h6 h7
  have b: "next_slide scene_deck = Inr (scene_deck\<lparr>current_slide_i := 1, current_animation := 2\<rparr>)"
    by simp
  from a b h1 h2 h3 show ?thesis by simp
qed

section \<open>The sequencer\<close>

lemma reset_explicit:
  assumes "slides p \<noteq> []"
  shows "reset p =
           Inr (p\<lparr>current_animation := 0, current_slide_i := 0,
                  slides := (slides p)[length (slides p) - 1 :=
                               (last (slides p))\<lparr>terminated := Some False\<rparr>]\<rparr>)"
  using assms by (simp add: reset_def py_index_minus1 last_conv_nth)

lemma reset_fields:
  assumes "reset p = Inr q"
  shows "slides p \<noteq> [] \<and> current_slide_i q = 0 \<and> current_animation q = 0
       \<and> terminated (last (slides q)) = Some False
       \<and> caps q = caps p \<and> lastframe q = lastframe p
       \<and> length (slides q) = length (slides p)"
proof -
  have ne: "slides p \<noteq> []"
    using assms by (auto simp add: reset_def py_index_def)
  from reset_explicit [OF ne] assms ne show ?thesis
    by (auto simp add: last_conv_nth)
qed

lemma handle_key_back:
  assumes k: "k AND 255 = BACK_KEY" and w: "wait_delay round_double d = Inr w"
      and p: "current_presentation d = Inr p"
  shows "handle_key round_double d k =
           (if current_slide_i p = 0
            then set_state PLAYING
                   (on_current_presentation reset
                      (d\<lparr>current_presentation_i := max 0 (current_presentation_i d - 1)\<rparr>))
            else set_state PLAYING (on_current_presentation prev d))"
  using assms
  by (simp add: handle_key_def BACK_KEY_def QUIT_KEY_def PLAYPAUSE_KEY_def CONTINUE_KEY_def)

lemma handle_key_back_previous_deck:
  assumes k: "k AND 255 = BACK_KEY" and w: "wait_delay round_double d = Inr w"
      and p: "current_presentation d = Inr p" and z: "current_slide_i p = 0"
      and i: "0 < current_presentation_i d"
      and j: "py_index (presentations d) (current_presentation_i d - 1) = Inr j"
      and q: "reset (presentations d ! j) = Inr q"
  shows "handle_key round_double d k =
           Inr (d\<lparr>current_presentation_i := current_presentation_i d - 1,
                  presentations := (presentations d)[j := q],
                  state := PLAYING\<rparr>)"
proof -
  have "max 0 (current_presentation_i d - 1) = current_presentation_i d - 1" using i by simp
  with handle_key_back [OF k w p] z j q show ?thesis
    by (simp add: on_current_presentation_def set_state_def)
qed

text \<open>
  The claim C2 as written sends a Back command to the active deck's \<^verbatim>\<open>prev()\<close> whenever
  the deck is not left, also on slide 0 of deck 0. There the code resets deck 0 instead:
  \<^verbatim>\<open>prev()\<close> would move segment 0 back to its first frame, and \<open>handle_key\<close> leaves the
  segment where it was.
\<close>

theorem handle_key_back_cases_counterexample:
  "current_presentation_i playing_display = 0
   \<and> current_presentation playing_display = Inr playing_deck
   \<and> current_slide_i playing_deck = 0
   \<and> handle_key round_30 playing_display BACK_KEY = Inr playing_display
   \<and> on_current_presentation prev playing_display =
       Inr (playing_display\<lparr>presentations := [playing_deck\<lparr>caps := caps scene_deck\<rparr>]\<rparr>)
   \<and> handle_key round_30 playing_display BACK_KEY \<noteq>
       set_state PLAYING (on_current_presentation prev playing_display)"
  by (simp add: handle_key_def BACK_KEY_def QUIT_KEY_def PLAYPAUSE_KEY_def CONTINUE_KEY_def
       playing_display_def playing_deck_def scene_deck_def wait_delay_def sleep_time_def
       truediv_1000_def math_ceil_def round_30_def
       current_presentation_def py_get_def py_index_def fps_def current_cap_def fix_time_def
       set_state_def on_current_presentation_def reset_def prev_def rewind_def current_slide_def
       seek_current_cap_def cap_set_pos0_def slide_A_def slide_B_def Let_def)

text \<open>
  Claim C2, amended. For every Back command, on a tick whose wait could be computed: if
  the active deck's slide index is 0, the active index becomes
  \<open>max 0 (active index - 1)\<close>, the deck then active is reset and the state is forced to
  \<open>PLAYING\<close>; with an active index above 0 that is the previous deck, which ends on slide
  0 with \<open>terminated\<close> cleared, and with active index 0 it is the active deck itself. If
  the slide index is not 0, the command goes to the active deck's \<^verbatim>\<open>prev()\<close> and the
  state is forced to \<open>PLAYING\<close>.
\<close>

theorem handle_key_back_cases:
  assumes k: "k AND 255 = BACK_KEY" and w: "wait_delay round_double d = Inr w"
      and p: "current_presentation d = Inr p"
  shows "(current_slide_i p = 0 \<longrightarrow>
            handle_key round_double d k =
              set_state PLAYING
                (on_current_presentation reset
                   (d\<lparr>current_presentation_i := max 0 (current_presentation_i d - 1)\<rparr>)))
       \<and> (current_slide_i p = 0 \<and> 0 < current_presentation_i d \<longrightarrow>
            (\<forall>j q. py_index (presentations d) (current_presentation_i d - 1) = Inr j
                 \<and> reset (presentations d ! j) = Inr q \<longrightarrow>
                 handle_key round_double d k =
                   Inr (d\<lparr>current_presentation_i := current_presentation_i d - 1,
                          presentations := (presentations d)[j := q],
                          state := PLAYING\<rparr>)
                 \<and> current_slide_i q = 0
                 \<and> terminated (last (slides q)) = Some False))
       \<and> (current_slide_i p \<noteq> 0 \<longrightarrow>
            handle_key round_double d k = set_state PLAYING (on_current_presentation prev d))"
  using handle_key_back [OF k w p] handle_key_back_previous_deck [OF k w p] reset_fields
  by auto

theorem handle_key_back_cases_witness:
  "BACK_KEY AND 255 = BACK_KEY
   \<and> wait_delay round_30 two_deck_display = Inr 34
   \<and> current_presentation two_deck_display = Inr scene_deck
   \<and> current_slide_i scene_deck = 0 \<and> 0 < current_presentation_i two_deck_display
   \<and> py_index (presentations two_deck_display) (current_presentation_i two_deck_display - 1) = Inr 0
   \<and> reset (presentations two_deck_display ! 0) =
       Inr (last_slide_deck\<lparr>current_animation := 0, current_slide_i := 0\<rparr>)
   \<and> handle_key round_30 two_deck_display BACK_KEY =
       Inr (two_deck_display\<lparr>current_presentation_i := 0,
              presentations := [last_slide_deck\<lparr>current_animation := 0, current_slide_i := 0\<rparr>,
                                scene_deck]\<rparr>)"
proof -
  have h1: "BACK_KEY AND 255 = BACK_KEY" by (simp add: BACK_KEY_def)
  have h3: "current_presentation two_deck_display = Inr scene_deck"
    by (simp add: current_presentation_def two_deck_display_def py_get_def py_index_def)
  have f: "fps scene_deck = Inr (Finite 30)"
    by (simp add: fps_def current_cap_def scene_deck_def py_get_def py_index_def)
  have h2: "wait_delay round_30 two_deck_display = Inr 34"
    using h3 f by (simp add: wait_delay_def sleep_time_def fix_time_def two_deck_display_def
          truediv_1000_def math_ceil_def round_30_def)
  have h4: "current_slide_i scene_deck = 0" by (simp add: scene_deck_def)
  have h5: "0 < current_presentation_i two_deck_display" by (simp add: two_deck_display_def)
  have h6: "py_index (presentations two_deck_display)
              (current_presentation_i two_deck_display - 1) = Inr 0"
    by (simp add: two_deck_display_def py_index_def)
  have h7: "reset (presentations two_deck_display ! 0) =
              Inr (last_slide_deck\<lparr>current_animation := 0, current_slide_i := 0\<rparr>)"
    by (simp add: two_deck_display_def reset_def ended_deck_def last_slide_deck_def
          py_index_def)
  have h8: "two_deck_display\<lparr>current_presentation_i := current_presentation_i two_deck_display - 1,
              presentations := (presentations two_deck_display)
                 [0 := last_slide_deck\<lparr>current_animation := 0, current_slide_i := 0\<rparr>],
              state := PLAYING\<rparr> =
            two_deck_display\<lparr>current_presentation_i := 0,
              presentations := [last_slide_deck\<lparr>current_animation := 0, current_slide_i := 0\<rparr>,
                                scene_deck]\<rparr>"
    by (simp add: two_deck_display_def)
  from handle_key_back_cases [OF h1 h2 h3, THEN conjunct2, THEN conjunct1] h4 h5 h6 h7 h8
  have "handle_key round_30 two_deck_display BACK_KEY =
       Inr (two_deck_display\<lparr>current_presentation_i := 0,
              presentations := [last_slide_deck\<lparr>current_animation := 0, current_slide_i := 0\<rparr>,
                                scene_deck]\<rparr>)"
    by simp
  with h1 h2 h3 h4 h5 h6 h7 show ?thesis by simp
qed

section \<open>Reset and rewind\<close>

lemma py_get_0: "py_get xs 0 = Inr c \<Longrightarrow> xs \<noteq> [] \<and> py_index xs 0 = Inr 0 \<and> xs ! 0 = c"
  by (auto simp add: py_get_def py_index_def Let_def split: if_splits)

lemma rewind_seeks:
  assumes "rewind p = Inr q" and "py_index (caps q) (current_animation q) = Inr k"
  shows "pos_frames (caps q ! k) = 0"
proof -
  from assms(1) obtain s where s: "current_slide p = Inr s"
    and sk: "seek_current_cap (p\<lparr>current_animation := start_animation s\<rparr>) = Inr q"
    by (auto simp add: rewind_def split: sum.splits)
  from sk obtain j where j: "py_index (caps p) (start_animation s) = Inr j"
    and q: "q = p\<lparr>current_animation := start_animation s,
                  caps := (caps p)[j := cap_set_pos0 (caps p ! j)]\<rparr>"
    by (auto simp add: seek_current_cap_def split: sum.splits)
  have "j < length (caps p)" using j by (rule py_index_less)
  moreover have "k = j" using assms(2) j q by simp
  ultimately show ?thesis using q by (simp add: cap_set_pos0_def)
qed

lemma update_state_after_reset:
  assumes z: "current_slide_i q = 0" "current_animation q = 0"
      and c: "py_get (caps q) 0 = Inr c" and fr: "pos_frames c < length (frames c)"
      and ne: "slides q \<noteq> []"
      and t: "terminated (hd (slides q)) \<noteq> None \<or> type (hd (slides q)) \<noteq> ''last''"
  shows "\<exists>st' q'. update_state q PLAYING = Inr (frames c ! pos_frames c, st', q')
           \<and> pos_frames (caps q' ! 0) = pos_frames c + 1"
proof -
  from py_get_0 [OF c] have j: "py_index (caps q) (current_animation q) = Inr 0"
    and c0: "caps q ! 0 = c" and cne: "caps q \<noteq> []" using z by simp_all
  let ?q1 = "q\<lparr>caps := (caps q)[0 := c\<lparr>pos_frames := pos_frames c + 1\<rparr>],
               lastframe := Some (frames c ! pos_frames c)\<rparr>"
  have r: "read_current_cap q = Inr (True, ?q1)"
    using read_current_cap_frame [OF j] c0 fr by simp
  have s: "current_slide ?q1 = Inr (hd (slides q))"
    using z ne by (simp add: current_slide_def py_get_def py_index_def hd_conv_nth)
  have rf: "return_frame ?q1 st = Inr (frames c ! pos_frames c, st, ?q1)" for st
    by (simp add: return_frame_def get_lastframe_def)
  have pos: "pos_frames (caps ?q1 ! 0) = pos_frames c + 1" using cne by simp
  show ?thesis
  proof (cases "type (hd (slides q)) = ''last''")
    case True
    with t obtain b where b: "terminated (hd (slides q)) = Some b" by auto
    from r s True b rf pos show ?thesis
      by (cases b) (simp_all add: update_state_def get_terminated_def)
  next
    case False
    with r s rf pos show ?thesis by (simp add: update_state_def)
  qed
qed

text \<open>
  Claim C10. \<^verbatim>\<open>reset()\<close> on a deck that has a slide sets the slide index and the
  animation index to 0 and clears \<open>terminated\<close> on the last slide, and leaves every
  segment's decode position as it was, where \<^verbatim>\<open>rewind()\<close> leaves the current segment at
  frame 0. So when segment 0 was left at a position with a frame still to read, the next
  \<open>update_state\<close> call on the reset deck returns the frame at that position and moves the
  position on by one; and a Back command on slide 0 of a later deck makes exactly this
  reset deck the active one.
\<close>

theorem reset_does_not_seek:
  assumes ne: "slides p \<noteq> []"
  shows "\<exists>q. reset p = Inr q
           \<and> current_slide_i q = 0 \<and> current_animation q = 0
           \<and> terminated (last (slides q)) = Some False
           \<and> caps q = caps p
           \<and> (\<forall>c. py_get (caps p) 0 = Inr c \<and> pos_frames c < length (frames c)
                  \<and> (terminated (hd (slides q)) \<noteq> None \<or> type (hd (slides q)) \<noteq> ''last'') \<longrightarrow>
                  (\<exists>st' q'. update_state q PLAYING = Inr (frames c ! pos_frames c, st', q')
                     \<and> pos_frames (caps q' ! 0) = pos_frames c + 1))
           \<and> (\<forall>round_double d k w a. k AND 255 = BACK_KEY \<and> wait_delay round_double d = Inr w
                  \<and> current_presentation d = Inr a \<and> current_slide_i a = 0
                  \<and> 0 < current_presentation_i d
                  \<and> py_get (presentations d) (current_presentation_i d - 1) = Inr p \<longrightarrow>
                  (\<exists>d'. handle_key round_double d k = Inr d' \<and> current_presentation d' = Inr q))
           \<and> (\<forall>q2 k. rewind p = Inr q2
                  \<and> py_index (caps q2) (current_animation q2) = Inr k \<longrightarrow>
                  pos_frames (caps q2 ! k) = 0)"
proof -
  from reset_explicit [OF ne] obtain q where q: "reset p = Inr q" by simp
  note f = reset_fields [OF q]
  have qne: "slides q \<noteq> []" using f by auto
  have a: "\<exists>st' q'. update_state q PLAYING = Inr (frames c ! pos_frames c, st', q')
                     \<and> pos_frames (caps q' ! 0) = pos_frames c + 1"
    if "py_get (caps p) 0 = Inr c" "pos_frames c < length (frames c)"
      "terminated (hd (slides q)) \<noteq> None \<or> type (hd (slides q)) \<noteq> ''last''" for c
    using update_state_after_reset [of q c] f that qne by simp
  have b: "\<exists>d'. handle_key round_double d k = Inr d' \<and> current_presentation d' = Inr q"
    if k: "k AND 255 = BACK_KEY" and w: "wait_delay round_double d = Inr w"
      and a: "current_presentation d = Inr a" and z: "current_slide_i a = 0"
      and i: "0 < current_presentation_i d"
      and g: "py_get (presentations d) (current_presentation_i d - 1) = Inr p" for round_double d k w a
  proof -
    from g obtain j where j: "py_index (presentations d) (current_presentation_i d - 1) = Inr j"
      and pj: "presentations d ! j = p"
      by (auto simp add: py_get_def split: sum.splits)
    have jl: "j < length (presentations d)" using j by (rule py_index_less)
    from handle_key_back_previous_deck [OF k w a z i j] pj q
    have h: "handle_key round_double d k =
           Inr (d\<lparr>current_presentation_i := current_presentation_i d - 1,
                  presentations := (presentations d)[j := q],
                  state := PLAYING\<rparr>)" by simp
    have "current_presentation (d\<lparr>current_presentation_i := current_presentation_i d - 1,
                  presentations := (presentations d)[j := q],
                  state := PLAYING\<rparr>) = Inr q"
      using j jl by (simp add: current_presentation_def py_get_def)
    with h show ?thesis by simp
  qed
  from q f a b rewind_seeks show ?thesis by blast
qed

theorem reset_does_not_seek_witness:
  "slides ended_deck \<noteq> []
   \<and> reset ended_deck = Inr (last_slide_deck\<lparr>current_animation := 0, current_slide_i := 0\<rparr>)
   \<and> pos_frames (caps ended_deck ! 0) = 1
   \<and> update_state (last_slide_deck\<lparr>current_animation := 0, current_slide_i := 0\<rparr>) PLAYING =
       Inr (11, PLAYING,
            last_slide_deck\<lparr>current_animation := 0, current_slide_i := 0,
               caps := (caps last_slide_deck)
                 [0 := \<lparr>frames = [10, 11], pos_frames = 2, prop_fps = Finite 30\<rparr>],
               lastframe := Some 11\<rparr>)
   \<and> BACK_KEY AND 255 = BACK_KEY
   \<and> wait_delay round_30 two_deck_display = Inr 34
   \<and> current_presentation two_deck_display = Inr scene_deck
   \<and> current_slide_i scene_deck = 0 \<and> 0 < current_presentation_i two_deck_display
   \<and> py_get (presentations two_deck_display) (current_presentation_i two_deck_display - 1) =
       Inr ended_deck
   \<and> (\<exists>d'. handle_key round_30 two_deck_display BACK_KEY = Inr d'
         \<and> current_presentation d' =
             Inr (last_slide_deck\<lparr>current_animation := 0, current_slide_i := 0\<rparr>))"
proof -
  have h1: "slides ended_deck \<noteq> []" by (simp add: ended_deck_def)
  have b1: "BACK_KEY AND 255 = BACK_KEY" by (simp add: BACK_KEY_def)
  have b3: "current_presentation two_deck_display = Inr scene_deck"
    by (simp add: current_presentation_def two_deck_display_def py_get_def py_index_def)
  have "fps scene_deck = Inr (Finite 30)"
    by (simp add: fps_def current_cap_def scene_deck_def py_get_def py_index_def)
  with b3 have b2: "wait_delay round_30 two_deck_display = Inr 34"
    by (simp add: wait_delay_def sleep_time_def fix_time_def two_deck_display_def
          truediv_1000_def math_ceil_def round_30_def)
  have b4: "current_slide_i scene_deck = 0" by (simp add: scene_deck_def)
  have b5: "0 < current_presentation_i two_deck_display" by (simp add: two_deck_display_def)
  have b6: "py_get (presentations two_deck_display)
              (current_presentation_i two_deck_display - 1) = Inr ended_deck"
    by (simp add: two_deck_display_def py_get_def py_index_def)
  have h2: "reset ended_deck =
              Inr (last_slide_deck\<lparr>current_animation := 0, current_slide_i := 0\<rparr>)"
    by (simp add: reset_def ended_deck_def last_slide_deck_def py_index_def)
  have h3: "py_get (caps ended_deck) 0 = Inr \<lparr>frames = [10, 11], pos_frames = 1, prop_fps = Finite 30\<rparr>"
    by (simp add: ended_deck_def py_get_def py_index_def)
  have h4: "type (hd (slides (last_slide_deck\<lparr>current_animation := 0, current_slide_i := 0\<rparr>)))
              \<noteq> ''last''"
    by (simp add: last_slide_deck_def slide_A_def)
  from reset_does_not_seek [OF h1] h2 h3 h4
  have "\<exists>st' q'. update_state (last_slide_deck\<lparr>current_animation := 0, current_slide_i := 0\<rparr>)
            PLAYING = Inr (11, st', q')"
    by fastforce
  moreover have "update_state (last_slide_deck\<lparr>current_animation := 0, current_slide_i := 0\<rparr>)
       PLAYING =
       Inr (11, PLAYING,
            last_slide_deck\<lparr>current_animation := 0, current_slide_i := 0,
               caps := (caps last_slide_deck)
                 [0 := \<lparr>frames = [10, 11], pos_frames = 2, prop_fps = Finite 30\<rparr>],
               lastframe := Some 11\<rparr>)"
    by (simp add: update_state_def read_current_cap_def cap_read_def py_index_def
          last_slide_deck_def current_slide_def py_get_def slide_A_def return_frame_def
          get_lastframe_def)
  moreover from reset_does_not_seek [OF h1] h2 b1 b2 b3 b4 b5 b6
  have "\<exists>d'. handle_key round_30 two_deck_display BACK_KEY = Inr d'
         \<and> current_presentation d' =
             Inr (last_slide_deck\<lparr>current_animation := 0, current_slide_i := 0\<rparr>)"
    by metis
  moreover have "pos_frames (caps ended_deck ! 0) = 1" by (simp add: ended_deck_def)
  ultimately show ?thesis using h1 h2 b1 b2 b3 b4 b5 b6 by simp
qed

section \<open>The terminated flag\<close>

















section \<open>The constructor\<close>

text \<open>
  The constructor turns the last slide into the terminal one whatever its configured
  type, and opens every segment at its first frame; without slides it raises.
\<close>

lemma Presentation_scene_config: "Presentation scene_config = Inr scene_deck"
  by (simp add: Presentation_def scene_config_def scene_deck_def reset_def py_index_def
        load_files_def VideoCapture_def)

lemma Presentation_no_slides:
  "config_slides cfg = [] \<Longrightarrow> Presentation cfg = Inl IndexError"
  by (simp add: Presentation_def reset_def py_index_def)

section \<open>The first call of update\_state\<close>

















end
